theory Spec2Isabelle
  imports Main "HOL-Library.Word"
begin

section \<open>The [V]PCLMULQDQ CRC glue (arch/x86/lib/crc-pclmul-template-glue.h)\<close>

subsection \<open>Data\<close>

type_synonym u8 = "8 word"
type_synonym size_t = "64 word"

text \<open>
  The four functions declared by \<^verbatim>\<open>DECLARE_CRC_PCLMUL_FUNCS(prefix, crc_t)\<close>; a value of
  this type is what the static call \<^verbatim>\<open>prefix##_pclmul\<close> points at.
\<close>

datatype pclmul_func = pclmul_sse | vpclmul_avx2 | vpclmul_avx10_256 | vpclmul_avx10_512

text \<open>
  Everything \<^verbatim>\<open>INIT_CRC_PCLMUL\<close> asks of the build and of the boot CPU, one field per
  test in the order of the macro: \<^verbatim>\<open>IS_ENABLED(CONFIG_AS_VPCLMULQDQ)\<close>, the
  \<^verbatim>\<open>boot_cpu_has\<close> bits and the two \<^verbatim>\<open>cpu_has_xfeatures\<close> masks.
\<close>

record cpu_caps =
  CONFIG_AS_VPCLMULQDQ :: bool
  X86_FEATURE_VPCLMULQDQ :: bool
  X86_FEATURE_AVX2 :: bool
  XFEATURE_MASK_YMM :: bool
  X86_FEATURE_AVX512BW :: bool
  X86_FEATURE_AVX512VL :: bool
  XFEATURE_MASK_AVX512 :: bool
  X86_FEATURE_PREFER_YMM :: bool

text \<open>
  What the macros do to their environment, in program order: a write of the static call,
  the two ends of an FPU section, and a call through the static call (with the function
  that was called and the length it was given).
\<close>

datatype event =
    Static_call_update pclmul_func
  | Kernel_fpu_begin
  | Static_call pclmul_func size_t
  | Kernel_fpu_end

record machine =
  pclmul :: pclmul_func
  in_kernel_fpu :: bool
  trace :: "event list"

text \<open>
  The constants argument of \<^verbatim>\<open>CRC_PCLMUL\<close> is a struct of which the macro reads the one
  member \<^verbatim>\<open>fold_across_128_bits_consts\<close>.
\<close>

record 'k crc_consts =
  fold_across_128_bits_consts :: 'k

text \<open>
  How control leaves \<^verbatim>\<open>CRC_PCLMUL\<close>: the macro either returns from the enclosing function
  with a value, or ends with the enclosing function still running; \<open>Continue\<close> carries
  the value the variable \<^verbatim>\<open>crc\<close> has at that point.
\<close>

datatype 'crc flow = Returned 'crc | Continue 'crc

subsection \<open>The static call and its initialisation\<close>

text \<open>\<^verbatim>\<open>DEFINE_STATIC_CALL(prefix##_pclmul, prefix##_pclmul_sse)\<close>: the state at load time.\<close>

definition DEFINE_STATIC_CALL :: machine where
  "DEFINE_STATIC_CALL = \<lparr>pclmul = pclmul_sse, in_kernel_fpu = False, trace = []\<rparr>"

definition static_call_update :: "pclmul_func \<Rightarrow> machine \<Rightarrow> machine" where
  "static_call_update f m = m\<lparr>pclmul := f, trace := trace m @ [Static_call_update f]\<rparr>"

definition INIT_CRC_PCLMUL :: "cpu_caps \<Rightarrow> machine \<Rightarrow> machine" where
  "INIT_CRC_PCLMUL c m =
     (if CONFIG_AS_VPCLMULQDQ c \<and> X86_FEATURE_VPCLMULQDQ c \<and> X86_FEATURE_AVX2 c \<and>
         XFEATURE_MASK_YMM c
      then
        if X86_FEATURE_AVX512BW c \<and> X86_FEATURE_AVX512VL c \<and> XFEATURE_MASK_AVX512 c
        then
          if X86_FEATURE_PREFER_YMM c
          then static_call_update vpclmul_avx10_256 m
          else static_call_update vpclmul_avx10_512 m
        else static_call_update vpclmul_avx2 m
      else m)"

subsection \<open>The dispatch macro\<close>

text \<open>
  Modelled from the spec: \<^verbatim>\<open>kernel_fpu_begin\<close> and \<^verbatim>\<open>kernel_fpu_end\<close> are not among the
  sources. Section 4.4 describes a scoped acquisition of the vector-register context:
  acquiring reserves it, releasing gives it back.
\<close>

definition kernel_fpu_begin :: "machine \<Rightarrow> machine" where
  "kernel_fpu_begin m = m\<lparr>in_kernel_fpu := True, trace := trace m @ [Kernel_fpu_begin]\<rparr>"

definition kernel_fpu_end :: "machine \<Rightarrow> machine" where
  "kernel_fpu_end m = m\<lparr>in_kernel_fpu := False, trace := trace m @ [Kernel_fpu_end]\<rparr>"

text \<open>
  \<^verbatim>\<open>static_call(prefix##_pclmul)(crc, p, len, consts_ptr)\<close>. The four assembly functions of
  the prefix are the parameter \<open>funcs\<close>; they compute a value and leave the machine alone.
\<close>

definition static_call ::
  "(pclmul_func \<Rightarrow> 'crc \<Rightarrow> u8 list \<Rightarrow> size_t \<Rightarrow> 'k \<Rightarrow> 'crc) \<Rightarrow>
     'crc \<Rightarrow> u8 list \<Rightarrow> size_t \<Rightarrow> 'k \<Rightarrow> machine \<Rightarrow> 'crc \<times> machine" where
  "static_call funcs crc p len consts_ptr m =
     (funcs (pclmul m) crc p len consts_ptr,
      m\<lparr>trace := trace m @ [Static_call (pclmul m) len]\<rparr>)"

text \<open>
  \<^verbatim>\<open>CRC_PCLMUL(crc, p, len, prefix, consts, have_pclmulqdq, is_fallback_sliced)\<close>.
  \<open>have_pclmulqdq\<close> is the value of the static key of that name and \<open>simd_usable\<close> the
  value \<^verbatim>\<open>crypto_simd_usable()\<close> returns in the calling context. The comparison of
  \<^verbatim>\<open>len\<close> is unsigned, as \<^verbatim>\<open>size_t\<close> is.
\<close>

definition CRC_PCLMUL ::
  "(pclmul_func \<Rightarrow> 'crc \<Rightarrow> u8 list \<Rightarrow> size_t \<Rightarrow> 'k \<Rightarrow> 'crc) \<Rightarrow>
     'crc \<Rightarrow> u8 list \<Rightarrow> size_t \<Rightarrow> ('k, 'z) crc_consts_scheme \<Rightarrow> bool \<Rightarrow> bool \<Rightarrow> bool \<Rightarrow>
     machine \<Rightarrow> 'crc flow \<times> machine" where
  "CRC_PCLMUL funcs crc p len consts have_pclmulqdq is_fallback_sliced simd_usable m =
     (if (if is_fallback_sliced then 64 else 16) \<le> len \<and> have_pclmulqdq \<and> simd_usable
      then
        let consts_ptr = fold_across_128_bits_consts consts;
            m1 = kernel_fpu_begin m;
            (crc', m2) = static_call funcs crc p len consts_ptr m1;
            m3 = kernel_fpu_end m2
        in (Returned crc', m3)
      else (Continue crc, m))"

text \<open>
  Modelled from the spec: the function that uses \<^verbatim>\<open>CRC_PCLMUL\<close> is not among the sources.
  Section 4.3: if any condition fails, the result is computed by the scalar fallback and
  returned directly; otherwise the result of the accelerated call is returned. The scalar
  fallback is the parameter \<open>fallback\<close>.
\<close>

definition dispatch ::
  "(pclmul_func \<Rightarrow> 'crc \<Rightarrow> u8 list \<Rightarrow> size_t \<Rightarrow> 'k \<Rightarrow> 'crc) \<Rightarrow>
     ('crc \<Rightarrow> u8 list \<Rightarrow> size_t \<Rightarrow> 'crc) \<Rightarrow>
     'crc \<Rightarrow> u8 list \<Rightarrow> size_t \<Rightarrow> ('k, 'z) crc_consts_scheme \<Rightarrow> bool \<Rightarrow> bool \<Rightarrow> bool \<Rightarrow>
     machine \<Rightarrow> 'crc \<times> machine" where
  "dispatch funcs fallback crc p len consts have_pclmulqdq is_fallback_sliced simd_usable m =
     (case CRC_PCLMUL funcs crc p len consts have_pclmulqdq is_fallback_sliced simd_usable m of
        (Returned r, m') \<Rightarrow> (r, m')
      | (Continue c, m') \<Rightarrow> (fallback c p len, m'))"

subsection \<open>The scalar fallback\<close>

text \<open>
  Modelled from the spec: the scalar fallback functions are not among the sources.
  Section 4.3 names two kinds, the naive byte-at-a-time one and the slice-based one that
  takes several bytes at a time (slice-by-8 in the comment above \<^verbatim>\<open>CRC_PCLMUL\<close>);
  section 3 calls the accumulator the running CRC state, and the glossary a CRC a
  checksum computed over a data stream. So the fallback runs the accumulator over the
  first \<^verbatim>\<open>len\<close> bytes of the buffer: one byte a step, or eight bytes a step for as long
  as eight are left and the rest one byte a step. The steps \<open>step\<close> and \<open>chunk\<close> stand for
  the polynomial and its tables, which the design leaves open.
\<close>

primrec crc_bytes :: "('crc \<Rightarrow> u8 \<Rightarrow> 'crc) \<Rightarrow> 'crc \<Rightarrow> u8 list \<Rightarrow> 'crc" where
  "crc_bytes step crc [] = crc"
| "crc_bytes step crc (b # bs) = crc_bytes step (step crc b) bs"

fun crc_slices ::
  "('crc \<Rightarrow> u8 list \<Rightarrow> 'crc) \<Rightarrow> ('crc \<Rightarrow> u8 \<Rightarrow> 'crc) \<Rightarrow> 'crc \<Rightarrow> u8 list \<Rightarrow> 'crc" where
  "crc_slices chunk step crc bs =
     (if 8 \<le> length bs then crc_slices chunk step (chunk crc (take 8 bs)) (drop 8 bs)
      else crc_bytes step crc bs)"

definition scalar_fallback ::
  "bool \<Rightarrow> ('crc \<Rightarrow> u8 list \<Rightarrow> 'crc) \<Rightarrow> ('crc \<Rightarrow> u8 \<Rightarrow> 'crc) \<Rightarrow>
     'crc \<Rightarrow> u8 list \<Rightarrow> size_t \<Rightarrow> 'crc" where
  "scalar_fallback is_fallback_sliced chunk step crc p len =
     (if is_fallback_sliced then crc_slices chunk step crc (take (unat len) p)
      else crc_bytes step crc (take (unat len) p))"

subsection \<open>The lifetime of the module\<close>

text \<open>
  Modelled from the spec: the init function of a CRC module and the callers of its
  dispatch are not among the sources. Sections 4.1 and 4.2: the probe runs exactly once,
  before dispatch is exposed to any caller, and is never run again; from then on the
  module only serves dispatches. So a lifetime is the load-time state, one run of
  \<^verbatim>\<open>INIT_CRC_PCLMUL\<close>, and then any list of dispatches, each with its accumulator, buffer,
  length and calling context.
\<close>

fun dispatches ::
  "(pclmul_func \<Rightarrow> 'crc \<Rightarrow> u8 list \<Rightarrow> size_t \<Rightarrow> 'k \<Rightarrow> 'crc) \<Rightarrow>
     ('crc \<Rightarrow> u8 list \<Rightarrow> size_t \<Rightarrow> 'crc) \<Rightarrow> ('k, 'z) crc_consts_scheme \<Rightarrow> bool \<Rightarrow> bool \<Rightarrow>
     ('crc \<times> u8 list \<times> size_t \<times> bool) list \<Rightarrow> machine \<Rightarrow> machine" where
  "dispatches funcs fallback consts have_pclmulqdq is_fallback_sliced [] m = m"
| "dispatches funcs fallback consts have_pclmulqdq is_fallback_sliced
     ((crc, p, len, simd_usable) # calls) m =
     dispatches funcs fallback consts have_pclmulqdq is_fallback_sliced calls
       (snd (dispatch funcs fallback crc p len consts have_pclmulqdq is_fallback_sliced
          simd_usable m))"

definition lifetime ::
  "(pclmul_func \<Rightarrow> 'crc \<Rightarrow> u8 list \<Rightarrow> size_t \<Rightarrow> 'k \<Rightarrow> 'crc) \<Rightarrow>
     ('crc \<Rightarrow> u8 list \<Rightarrow> size_t \<Rightarrow> 'crc) \<Rightarrow> ('k, 'z) crc_consts_scheme \<Rightarrow> bool \<Rightarrow> bool \<Rightarrow>
     cpu_caps \<Rightarrow> ('crc \<times> u8 list \<times> size_t \<times> bool) list \<Rightarrow> machine" where
  "lifetime funcs fallback consts have_pclmulqdq is_fallback_sliced c calls =
     dispatches funcs fallback consts have_pclmulqdq is_fallback_sliced calls
       (INIT_CRC_PCLMUL c DEFINE_STATIC_CALL)"

subsection \<open>The decision table of the design\<close>

text \<open>
  The selection as section 4.1 words it, over the feature set of section 3, to be
  compared with \<open>INIT_CRC_PCLMUL\<close>.
\<close>

datatype implementation_variant =
  Baseline | Accelerated_Wide1 | Accelerated_Wide2_Narrow | Accelerated_Wide2_Wide

record feature_set =
  carryless_multiply :: bool
  wide_vector :: bool
  wide_vector_os :: bool
  widest_vector :: bool
  widest_vector_os :: bool
  prefer_narrower :: bool

definition probe_spec :: "feature_set \<Rightarrow> implementation_variant" where
  "probe_spec fs =
     (if carryless_multiply fs \<and> wide_vector fs \<and> wide_vector_os fs
      then
        if widest_vector fs \<and> widest_vector_os fs
        then if prefer_narrower fs then Accelerated_Wide2_Narrow else Accelerated_Wide2_Wide
        else Accelerated_Wide1
      else Baseline)"

text \<open>
  How the code's tests read as the design's features: carry-less multiply is usable when
  the assembler could build the functions and the CPU has the instruction; the widest
  extension is the pair AVX512BW and AVX512VL.
\<close>

definition feature_set_of :: "cpu_caps \<Rightarrow> feature_set" where
  "feature_set_of c =
     \<lparr>carryless_multiply = (CONFIG_AS_VPCLMULQDQ c \<and> X86_FEATURE_VPCLMULQDQ c),
      wide_vector = X86_FEATURE_AVX2 c,
      wide_vector_os = XFEATURE_MASK_YMM c,
      widest_vector = (X86_FEATURE_AVX512BW c \<and> X86_FEATURE_AVX512VL c),
      widest_vector_os = XFEATURE_MASK_AVX512 c,
      prefer_narrower = X86_FEATURE_PREFER_YMM c\<rparr>"

fun variant_of :: "pclmul_func \<Rightarrow> implementation_variant" where
  "variant_of pclmul_sse = Baseline"
| "variant_of vpclmul_avx2 = Accelerated_Wide1"
| "variant_of vpclmul_avx10_256 = Accelerated_Wide2_Narrow"
| "variant_of vpclmul_avx10_512 = Accelerated_Wide2_Wide"

subsection \<open>Reading a trace\<close>

text \<open>The events a step added to the trace: what \<open>m'\<close> has beyond \<open>m\<close>.\<close>

definition new_events :: "machine \<Rightarrow> machine \<Rightarrow> event list" where
  "new_events m m' = drop (length (trace m)) (trace m')"

text \<open>The number of writes of the static call in a trace.\<close>

fun slot_writes :: "event list \<Rightarrow> nat" where
  "slot_writes [] = 0"
| "slot_writes (Static_call_update f # es) = Suc (slot_writes es)"
| "slot_writes (e # es) = slot_writes es"

text \<open>The lengths the assembly functions were called with, in order.\<close>

fun kernel_lens :: "event list \<Rightarrow> size_t list" where
  "kernel_lens [] = []"
| "kernel_lens (Static_call f l # es) = l # kernel_lens es"
| "kernel_lens (e # es) = kernel_lens es"

text \<open>
  A trace keeps the FPU discipline, starting with the section open or not (\<open>held\<close>):
  a section is opened only when none is open and closed only when one is, every call
  through the static call stands inside a section, and no section is open at the end.
\<close>

fun fpu_scoped :: "bool \<Rightarrow> event list \<Rightarrow> bool" where
  "fpu_scoped held [] = (\<not> held)"
| "fpu_scoped held (Kernel_fpu_begin # es) = (\<not> held \<and> fpu_scoped True es)"
| "fpu_scoped held (Kernel_fpu_end # es) = (held \<and> fpu_scoped False es)"
| "fpu_scoped held (Static_call f l # es) = (held \<and> fpu_scoped held es)"
| "fpu_scoped held (Static_call_update f # es) = fpu_scoped held es"

section \<open>The AMD 3D V-Cache driver (drivers/platform/x86/amd/x3d_vcache.c)\<close>

subsection \<open>Data\<close>

definition EINVAL :: int where
  "EINVAL = 22"

definition DSM_REVISION_ID :: nat where
  "DSM_REVISION_ID = 0"

definition DSM_SET_X3D_MODE :: nat where
  "DSM_SET_X3D_MODE = 1"

text \<open>\<^verbatim>\<open>enum amd_x3d_mode_type\<close>, by the integer values of its enumerators.\<close>

definition MODE_INDEX_FREQ :: int where
  "MODE_INDEX_FREQ = 0"

definition MODE_INDEX_CACHE :: int where
  "MODE_INDEX_CACHE = 1"

definition amd_x3d_mode_strings :: "string list" where
  "amd_x3d_mode_strings = [''frequency'', ''cache'']"

text \<open>
  \<^verbatim>\<open>struct amd_x3d_dev\<close>: the ACPI handle and the current mode. The device pointer serves
  the diagnostics only; the mutex orders concurrent mode switches, and one operation at
  a time is modelled here.
\<close>

record 'h amd_x3d_dev =
  ahandle :: 'h
  curr_mode :: int

subsection \<open>Helpers of the kernel\<close>

text \<open>
  Modelled from the spec: \<^verbatim>\<open>sysfs_streq\<close> and \<^verbatim>\<open>sysfs_match_string\<close> (lib/string.c)
  are not among the sources. Section 6 gives the attribute its two values,
  \<^verbatim>\<open>frequency\<close> and \<^verbatim>\<open>cache\<close>; the helper returns the index of the first table entry
  that equals the written string, one trailing newline on either side set aside, and
  \<^verbatim>\<open>-EINVAL\<close> when no entry does.
\<close>

definition sysfs_streq :: "string \<Rightarrow> string \<Rightarrow> bool" where
  "sysfs_streq s1 s2 = (s1 = s2 \<or> s1 @ ''\<newline>'' = s2 \<or> s1 = s2 @ ''\<newline>'')"

fun sysfs_match_loop :: "string list \<Rightarrow> nat \<Rightarrow> string \<Rightarrow> int" where
  "sysfs_match_loop [] index str = - EINVAL"
| "sysfs_match_loop (item # array) index str =
     (if sysfs_streq item str then int index else sysfs_match_loop array (Suc index) str)"

definition sysfs_match_string :: "string list \<Rightarrow> string \<Rightarrow> int" where
  "sysfs_match_string array str = sysfs_match_loop array 0 str"

text \<open>
  Modelled from the spec: \<^verbatim>\<open>sysfs_emit\<close> (fs/sysfs/file.c) is not among the sources. It
  writes the formatted text at the start of the attribute's page, at most
  \<^verbatim>\<open>PAGE_SIZE - 1\<close> characters of it, and returns the number of characters written.
\<close>

definition PAGE_SIZE :: nat where
  "PAGE_SIZE = 4096"

definition sysfs_emit :: "string \<Rightarrow> int \<times> string" where
  "sysfs_emit s = (let out = take (PAGE_SIZE - 1) s in (int (length out), out))"

subsection \<open>The mode attribute\<close>

text \<open>
  \<^verbatim>\<open>acpi_evaluate_dsm\<close> is the firmware: the parameter \<open>dsm\<close>, from the handle, the
  revision, the function index and the integer argument to the returned object, \<open>None\<close>
  for a null pointer.
\<close>

definition amd_x3d_mode_switch ::
  "('h \<Rightarrow> nat \<Rightarrow> nat \<Rightarrow> int \<Rightarrow> 'o option) \<Rightarrow> 'h amd_x3d_dev \<Rightarrow> int \<Rightarrow> int \<times> 'h amd_x3d_dev" where
  "amd_x3d_mode_switch dsm data new_state =
     (case dsm (ahandle data) DSM_REVISION_ID DSM_SET_X3D_MODE new_state of
        None \<Rightarrow> (- EINVAL, data)
      | Some out \<Rightarrow> (0, data\<lparr>curr_mode := new_state\<rparr>))"

text \<open>
  The result is a \<^verbatim>\<open>ssize_t\<close>: an error code as it is, the count \<^verbatim>\<open>size_t count\<close> as
  the conversion to the signed type reads it.
\<close>

definition amd_x3d_mode_store ::
  "('h \<Rightarrow> nat \<Rightarrow> nat \<Rightarrow> int \<Rightarrow> 'o option) \<Rightarrow> 'h amd_x3d_dev \<Rightarrow> string \<Rightarrow> size_t \<Rightarrow>
     int \<times> 'h amd_x3d_dev" where
  "amd_x3d_mode_store dsm data buf count =
     (let ret = sysfs_match_string amd_x3d_mode_strings buf in
      if ret < 0 then (ret, data)
      else
        let (ret, data') = amd_x3d_mode_switch dsm data ret
        in (if ret \<noteq> 0 then ret else sint count, data'))"

text \<open>The result and the contents of the output buffer \<open>buf\<close> afterwards.\<close>

definition amd_x3d_mode_show :: "'h amd_x3d_dev \<Rightarrow> string \<Rightarrow> int \<times> string" where
  "amd_x3d_mode_show data buf =
     (if curr_mode data > MODE_INDEX_CACHE \<or> curr_mode data < MODE_INDEX_FREQ
      then (- EINVAL, buf)
      else sysfs_emit (amd_x3d_mode_strings ! nat (curr_mode data) @ ''\<newline>''))"


section \<open>Facts about the glue macros\<close>

lemma pclmul_INIT:
  "pclmul (INIT_CRC_PCLMUL c m) =
     (if CONFIG_AS_VPCLMULQDQ c \<and> X86_FEATURE_VPCLMULQDQ c \<and> X86_FEATURE_AVX2 c \<and>
         XFEATURE_MASK_YMM c
      then
        if X86_FEATURE_AVX512BW c \<and> X86_FEATURE_AVX512VL c \<and> XFEATURE_MASK_AVX512 c
        then if X86_FEATURE_PREFER_YMM c then vpclmul_avx10_256 else vpclmul_avx10_512
        else vpclmul_avx2
      else pclmul m)"
  by (simp add: INIT_CRC_PCLMUL_def static_call_update_def)

lemma trace_INIT:
  "\<exists>f. trace (INIT_CRC_PCLMUL c m) =
     (if CONFIG_AS_VPCLMULQDQ c \<and> X86_FEATURE_VPCLMULQDQ c \<and> X86_FEATURE_AVX2 c \<and>
         XFEATURE_MASK_YMM c
      then trace m @ [Static_call_update f] else trace m)"
  by (simp add: INIT_CRC_PCLMUL_def static_call_update_def)

lemma CRC_PCLMUL_eq:
  "CRC_PCLMUL funcs crc p len consts have_pclmulqdq is_fallback_sliced simd_usable m =
     (if (if is_fallback_sliced then 64 else 16) \<le> len \<and> have_pclmulqdq \<and> simd_usable
      then (Returned (funcs (pclmul m) crc p len (fold_across_128_bits_consts consts)),
            m\<lparr>in_kernel_fpu := False,
              trace := trace m @ [Kernel_fpu_begin, Static_call (pclmul m) len, Kernel_fpu_end]\<rparr>)
      else (Continue crc, m))"
  by (simp add: CRC_PCLMUL_def kernel_fpu_begin_def static_call_def kernel_fpu_end_def)

lemma dispatch_eq:
  "dispatch funcs fallback crc p len consts have_pclmulqdq is_fallback_sliced simd_usable m =
     (if (if is_fallback_sliced then 64 else 16) \<le> len \<and> have_pclmulqdq \<and> simd_usable
      then (funcs (pclmul m) crc p len (fold_across_128_bits_consts consts),
            m\<lparr>in_kernel_fpu := False,
              trace := trace m @ [Kernel_fpu_begin, Static_call (pclmul m) len, Kernel_fpu_end]\<rparr>)
      else (fallback crc p len, m))"
  by (simp add: dispatch_def CRC_PCLMUL_eq)

lemma threshold_ge_16:
  "(if is_fallback_sliced then 64 else 16) \<le> (len :: size_t) \<Longrightarrow> 16 \<le> len"
  by (cases is_fallback_sliced) (auto elim: order_trans [rotated])

lemma new_events_dispatch:
  "new_events m
     (snd (dispatch funcs fallback crc p len consts have_pclmulqdq is_fallback_sliced
        simd_usable m)) =
   (if (if is_fallback_sliced then 64 else 16) \<le> len \<and> have_pclmulqdq \<and> simd_usable
    then [Kernel_fpu_begin, Static_call (pclmul m) len, Kernel_fpu_end] else [])"
  by (simp add: dispatch_eq new_events_def)

lemma slot_writes_append: "slot_writes (xs @ ys) = slot_writes xs + slot_writes ys"
  by (induction xs rule: slot_writes.induct) simp_all

lemma slot_writes_dispatch:
  "slot_writes (trace (snd (dispatch funcs fallback crc p len cst have_pclmulqdq
      is_fallback_sliced simd_usable m))) = slot_writes (trace m)"
  by (simp add: dispatch_eq slot_writes_append)

lemma pclmul_dispatch:
  "pclmul (snd (dispatch funcs fallback crc p len cst have_pclmulqdq is_fallback_sliced
      simd_usable m)) = pclmul m"
  by (simp add: dispatch_eq)

lemma dispatches_read_only:
  "pclmul (dispatches funcs fallback cst have_pclmulqdq is_fallback_sliced calls m) = pclmul m \<and>
   slot_writes (trace (dispatches funcs fallback cst have_pclmulqdq is_fallback_sliced calls m)) =
     slot_writes (trace m)"
proof (induction calls arbitrary: m)
  case Nil
  show ?case by simp
next
  case (Cons call calls)
  obtain crc p len simd_usable where call: "call = (crc, p, len, simd_usable)"
    by (cases call) auto
  show ?case
    unfolding call dispatches.simps
    by (simp only: Cons.IH pclmul_dispatch slot_writes_dispatch)
qed

lemma slot_writes_INIT:
  "slot_writes (trace (INIT_CRC_PCLMUL c m)) =
     slot_writes (trace m) +
     (if CONFIG_AS_VPCLMULQDQ c \<and> X86_FEATURE_VPCLMULQDQ c \<and> X86_FEATURE_AVX2 c \<and>
         XFEATURE_MASK_YMM c then 1 else 0)"
  by (simp add: INIT_CRC_PCLMUL_def static_call_update_def slot_writes_append)

lemma scalar_fallback_empty:
  "scalar_fallback is_fallback_sliced chunk step crc p 0 = crc"
  by (simp add: scalar_fallback_def)

section \<open>Selection\<close>

text \<open>
  Claim C1. For every combination of the capability flags, initialisation from the
  load-time state leaves in the static call the variant that the ordered decision table
  of the design selects. When one of the four tests of the outer condition fails (the
  assembler's or the CPU's carry-less multiply, the base wide vector extension, its OS
  support), initialisation changes nothing, so the static call keeps the baseline
  function. With the outer condition true and one of the widest extension's tests false
  it holds the wide-1 function; with every feature and the prefer-narrower hint the
  narrow wide-2 function, and with every feature and no hint the wide wide-2 function.
\<close>

theorem INIT_CRC_PCLMUL_decision_table:
  "variant_of (pclmul (INIT_CRC_PCLMUL c DEFINE_STATIC_CALL)) = probe_spec (feature_set_of c) \<and>
   INIT_CRC_PCLMUL (c\<lparr>CONFIG_AS_VPCLMULQDQ := False\<rparr>) m = m \<and>
   INIT_CRC_PCLMUL (c\<lparr>X86_FEATURE_VPCLMULQDQ := False\<rparr>) m = m \<and>
   INIT_CRC_PCLMUL (c\<lparr>X86_FEATURE_AVX2 := False\<rparr>) m = m \<and>
   INIT_CRC_PCLMUL (c\<lparr>XFEATURE_MASK_YMM := False\<rparr>) m = m \<and>
   pclmul (INIT_CRC_PCLMUL (c\<lparr>X86_FEATURE_VPCLMULQDQ := False\<rparr>) DEFINE_STATIC_CALL) =
     pclmul_sse \<and>
   pclmul (INIT_CRC_PCLMUL
      (c\<lparr>CONFIG_AS_VPCLMULQDQ := True, X86_FEATURE_VPCLMULQDQ := True,
         X86_FEATURE_AVX2 := True, XFEATURE_MASK_YMM := True,
         X86_FEATURE_AVX512BW := False\<rparr>) m) = vpclmul_avx2 \<and>
   pclmul (INIT_CRC_PCLMUL
      (c\<lparr>CONFIG_AS_VPCLMULQDQ := True, X86_FEATURE_VPCLMULQDQ := True,
         X86_FEATURE_AVX2 := True, XFEATURE_MASK_YMM := True,
         X86_FEATURE_AVX512VL := False\<rparr>) m) = vpclmul_avx2 \<and>
   pclmul (INIT_CRC_PCLMUL
      (c\<lparr>CONFIG_AS_VPCLMULQDQ := True, X86_FEATURE_VPCLMULQDQ := True,
         X86_FEATURE_AVX2 := True, XFEATURE_MASK_YMM := True,
         XFEATURE_MASK_AVX512 := False\<rparr>) m) = vpclmul_avx2 \<and>
   pclmul (INIT_CRC_PCLMUL
      \<lparr>CONFIG_AS_VPCLMULQDQ = True, X86_FEATURE_VPCLMULQDQ = True,
       X86_FEATURE_AVX2 = True, XFEATURE_MASK_YMM = True,
       X86_FEATURE_AVX512BW = True, X86_FEATURE_AVX512VL = True,
       XFEATURE_MASK_AVX512 = True, X86_FEATURE_PREFER_YMM = True\<rparr> m) = vpclmul_avx10_256 \<and>
   pclmul (INIT_CRC_PCLMUL
      \<lparr>CONFIG_AS_VPCLMULQDQ = True, X86_FEATURE_VPCLMULQDQ = True,
       X86_FEATURE_AVX2 = True, XFEATURE_MASK_YMM = True,
       X86_FEATURE_AVX512BW = True, X86_FEATURE_AVX512VL = True,
       XFEATURE_MASK_AVX512 = True, X86_FEATURE_PREFER_YMM = False\<rparr> m) = vpclmul_avx10_512"
proof -
  have table: "variant_of (pclmul (INIT_CRC_PCLMUL c DEFINE_STATIC_CALL)) =
      probe_spec (feature_set_of c)"
    by (simp add: pclmul_INIT DEFINE_STATIC_CALL_def probe_spec_def feature_set_of_def)
  have keeps: "INIT_CRC_PCLMUL (c\<lparr>CONFIG_AS_VPCLMULQDQ := False\<rparr>) m = m"
      "INIT_CRC_PCLMUL (c\<lparr>X86_FEATURE_VPCLMULQDQ := False\<rparr>) m = m"
      "INIT_CRC_PCLMUL (c\<lparr>X86_FEATURE_AVX2 := False\<rparr>) m = m"
      "INIT_CRC_PCLMUL (c\<lparr>XFEATURE_MASK_YMM := False\<rparr>) m = m"
    by (simp_all add: INIT_CRC_PCLMUL_def)
  have baseline:
    "pclmul (INIT_CRC_PCLMUL (c\<lparr>X86_FEATURE_VPCLMULQDQ := False\<rparr>) DEFINE_STATIC_CALL) =
       pclmul_sse"
    by (simp add: pclmul_INIT DEFINE_STATIC_CALL_def)
  show ?thesis
    using table keeps baseline by (simp add: pclmul_INIT)
qed

section \<open>Dispatch\<close>

text \<open>
  Claim C2. Let the assembly functions keep their contract: called with a length of at
  least 16 (and the constants of the family) each of the four returns what the scalar
  fallback returns. Then for every accumulator, buffer and length (0 included), every
  content of the static call, every value of the static key, of the SIMD-usable test
  and of the fallback kind, the result of dispatch is the result of the scalar fallback.
\<close>

theorem dispatch_equals_fallback:
  assumes contract:
    "\<And>f crc p len. 16 \<le> len \<Longrightarrow>
       funcs f crc p len (fold_across_128_bits_consts cst) = fallback crc p len"
  shows "fst (dispatch funcs fallback A B len cst have_pclmulqdq is_fallback_sliced
           simd_usable m) = fallback A B len"
proof (cases "(if is_fallback_sliced then 64 else 16) \<le> len \<and> have_pclmulqdq \<and> simd_usable")
  case True
  then have "16 \<le> len"
    by (blast intro: threshold_ge_16)
  then have "funcs (pclmul m) A B len (fold_across_128_bits_consts cst) = fallback A B len"
    by (rule contract)
  then show ?thesis
    unfolding dispatch_eq if_P [OF True] by simp
next
  case False
  show ?thesis
    unfolding dispatch_eq if_not_P [OF False] by simp
qed

theorem dispatch_equals_fallback_witness:
  "fst (dispatch (\<lambda>f crc p len k. if 16 \<le> len then crc + ucast len else 0)
          (\<lambda>crc p len. crc + ucast len) (0xFFFFFFFF :: 32 word) (replicate 16 0) 16
          \<lparr>fold_across_128_bits_consts = ()\<rparr> True False True
          (INIT_CRC_PCLMUL
             \<lparr>CONFIG_AS_VPCLMULQDQ = True, X86_FEATURE_VPCLMULQDQ = True,
              X86_FEATURE_AVX2 = True, XFEATURE_MASK_YMM = True,
              X86_FEATURE_AVX512BW = False, X86_FEATURE_AVX512VL = False,
              XFEATURE_MASK_AVX512 = False, X86_FEATURE_PREFER_YMM = False\<rparr>
             DEFINE_STATIC_CALL)) = 15"
  using dispatch_equals_fallback
    [where funcs = "\<lambda>f crc p len k. if 16 \<le> len then crc + ucast len else 0"
       and fallback = "\<lambda>crc p len. crc + ucast len"
       and cst = "\<lparr>fold_across_128_bits_consts = ()\<rparr>"
       and A = "0xFFFFFFFF :: 32 word" and B = "replicate 16 0" and len = 16
       and have_pclmulqdq = True and is_fallback_sliced = False and simd_usable = True]
  by simp

text \<open>
  Claim C3. The macro returns from the enclosing function (the accelerated path), and
  an assembly function is called, exactly when the length is at least the threshold, the
  static key is on and SIMD is usable in the calling context; the threshold is 64 with a
  sliced fallback and 16 with the byte-at-a-time one. Otherwise the scalar fallback computes
  the result. With the byte-at-a-time fallback a length of 15 always falls through to
  the fallback and a length of 16 takes the accelerated path when the key is on and the
  context permits; with the sliced fallback the same holds of 63 and 64.
\<close>

theorem CRC_PCLMUL_accelerated_iff:
  "(\<exists>r. fst (CRC_PCLMUL funcs crc p len cst have_pclmulqdq is_fallback_sliced simd_usable m) =
       Returned r) =
     ((if is_fallback_sliced then 64 else 16) \<le> len \<and> have_pclmulqdq \<and> simd_usable) \<and>
   (kernel_lens (new_events m (snd (dispatch funcs fallback crc p len cst have_pclmulqdq
       is_fallback_sliced simd_usable m))) \<noteq> []) =
     ((if is_fallback_sliced then 64 else 16) \<le> len \<and> have_pclmulqdq \<and> simd_usable) \<and>
   fst (dispatch funcs fallback crc p len cst have_pclmulqdq is_fallback_sliced simd_usable m) =
     (if (if is_fallback_sliced then 64 else 16) \<le> len \<and> have_pclmulqdq \<and> simd_usable
      then funcs (pclmul m) crc p len (fold_across_128_bits_consts cst)
      else fallback crc p len) \<and>
   CRC_PCLMUL funcs crc p 15 cst have_pclmulqdq False simd_usable m = (Continue crc, m) \<and>
   fst (CRC_PCLMUL funcs crc p 16 cst True False True m) =
     Returned (funcs (pclmul m) crc p 16 (fold_across_128_bits_consts cst)) \<and>
   CRC_PCLMUL funcs crc p 63 cst have_pclmulqdq True simd_usable m = (Continue crc, m) \<and>
   fst (CRC_PCLMUL funcs crc p 64 cst True True True m) =
     Returned (funcs (pclmul m) crc p 64 (fold_across_128_bits_consts cst))"
proof -
  let ?go = "(if is_fallback_sliced then 64 else 16) \<le> len \<and> have_pclmulqdq \<and> simd_usable"
  have macro: "(\<exists>r. fst (CRC_PCLMUL funcs crc p len cst have_pclmulqdq is_fallback_sliced
      simd_usable m) = Returned r) = ?go"
    by (simp add: CRC_PCLMUL_eq)
  have called: "(kernel_lens (new_events m (snd (dispatch funcs fallback crc p len cst
      have_pclmulqdq is_fallback_sliced simd_usable m))) \<noteq> []) = ?go"
    by (simp add: new_events_dispatch)
  have result: "fst (dispatch funcs fallback crc p len cst have_pclmulqdq is_fallback_sliced
      simd_usable m) =
     (if ?go then funcs (pclmul m) crc p len (fold_across_128_bits_consts cst)
      else fallback crc p len)"
    by (simp add: dispatch_eq)
  have naive: "CRC_PCLMUL funcs crc p 15 cst have_pclmulqdq False simd_usable m = (Continue crc, m)"
    "fst (CRC_PCLMUL funcs crc p 16 cst True False True m) =
       Returned (funcs (pclmul m) crc p 16 (fold_across_128_bits_consts cst))"
    by (simp_all add: CRC_PCLMUL_eq)
  have sliced: "CRC_PCLMUL funcs crc p 63 cst have_pclmulqdq True simd_usable m = (Continue crc, m)"
    "fst (CRC_PCLMUL funcs crc p 64 cst True True True m) =
       Returned (funcs (pclmul m) crc p 64 (fold_across_128_bits_consts cst))"
    by (simp_all add: CRC_PCLMUL_eq)
  from macro called result naive sliced show ?thesis
    by blast
qed

text \<open>
  Claim C4. A dispatch that takes the accelerated path adds to the trace exactly: the
  opening of an FPU section, the call of the function in the static call, the closing
  of the section; one that does not adds nothing. Either way the added events keep the
  FPU discipline (the call inside a section, no section left open), after the
  accelerated path no section is open whatever was before, and after the other path the
  flag is as it was. The state dispatch ends in is the state the macro ends in.
\<close>

theorem CRC_PCLMUL_fpu_scoped:
  "trace (snd (dispatch funcs fallback crc p len cst have_pclmulqdq is_fallback_sliced
      simd_usable m)) =
     trace m @ (if (if is_fallback_sliced then 64 else 16) \<le> len \<and> have_pclmulqdq \<and> simd_usable
                then [Kernel_fpu_begin, Static_call (pclmul m) len, Kernel_fpu_end] else []) \<and>
   fpu_scoped False (new_events m (snd (dispatch funcs fallback crc p len cst have_pclmulqdq
      is_fallback_sliced simd_usable m))) \<and>
   in_kernel_fpu (snd (dispatch funcs fallback crc p len cst have_pclmulqdq is_fallback_sliced
      simd_usable m)) =
     (in_kernel_fpu m \<and>
      \<not> ((if is_fallback_sliced then 64 else 16) \<le> len \<and> have_pclmulqdq \<and> simd_usable)) \<and>
   snd (dispatch funcs fallback crc p len cst have_pclmulqdq is_fallback_sliced simd_usable m) =
     snd (CRC_PCLMUL funcs crc p len cst have_pclmulqdq is_fallback_sliced simd_usable m)"
proof -
  let ?m' = "snd (dispatch funcs fallback crc p len cst have_pclmulqdq is_fallback_sliced
      simd_usable m)"
  have events: "trace ?m' =
     trace m @ (if (if is_fallback_sliced then 64 else 16) \<le> len \<and> have_pclmulqdq \<and> simd_usable
                then [Kernel_fpu_begin, Static_call (pclmul m) len, Kernel_fpu_end] else [])"
    by (simp add: dispatch_eq)
  have scoped: "fpu_scoped False (new_events m ?m')"
    unfolding new_events_dispatch by simp
  have released: "in_kernel_fpu ?m' =
     (in_kernel_fpu m \<and>
      \<not> ((if is_fallback_sliced then 64 else 16) \<le> len \<and> have_pclmulqdq \<and> simd_usable))"
    by (simp add: dispatch_eq)
  have same: "?m' =
     snd (CRC_PCLMUL funcs crc p len cst have_pclmulqdq is_fallback_sliced simd_usable m)"
    by (simp add: dispatch_eq CRC_PCLMUL_eq)
  from events scoped released same show ?thesis
    by blast
qed

text \<open>
  Claim C6. Dispatch has a result for every input, and the result is the value of the
  fallback or of the function in the static call: there is no error alternative. With
  SIMD not usable in the calling context the result is the fallback's and the machine is
  untouched (no FPU section is opened, nothing is added to the trace); the same with the
  static key off, and with a length of zero.
\<close>

theorem dispatch_total:
  "(\<exists>r m'. dispatch funcs fallback crc p len cst have_pclmulqdq is_fallback_sliced
       simd_usable m = (r, m') \<and>
     (r = fallback crc p len \<or>
      r = funcs (pclmul m) crc p len (fold_across_128_bits_consts cst))) \<and>
   dispatch funcs fallback crc p len cst have_pclmulqdq is_fallback_sliced False m =
     (fallback crc p len, m) \<and>
   dispatch funcs fallback crc p len cst False is_fallback_sliced simd_usable m =
     (fallback crc p len, m) \<and>
   dispatch funcs fallback crc p 0 cst have_pclmulqdq is_fallback_sliced simd_usable m =
     (fallback crc p 0, m)"
  by (simp add: dispatch_eq)

text \<open>
  Claim C7. With a length of zero dispatch returns the accumulator unchanged and leaves
  the machine untouched, whatever the static call holds (after any initialisation, in
  particular), whatever the static key, the calling context and the kind of the
  fallback are, and for every polynomial: the macro falls through with the accumulator
  as it was, and the scalar fallback, byte-at-a-time or sliced, runs over no byte.
\<close>

theorem dispatch_empty_buffer:
  "dispatch funcs (scalar_fallback is_fallback_sliced chunk step) A p 0 cst have_pclmulqdq
      is_fallback_sliced simd_usable m = (A, m) \<and>
   fst (dispatch funcs (scalar_fallback is_fallback_sliced chunk step) A [] 0 cst
      have_pclmulqdq is_fallback_sliced simd_usable
      (INIT_CRC_PCLMUL c DEFINE_STATIC_CALL)) = A \<and>
   CRC_PCLMUL funcs A p 0 cst have_pclmulqdq is_fallback_sliced simd_usable m =
     (Continue A, m)"
proof -
  have falls_through:
    "CRC_PCLMUL funcs A p 0 cst have_pclmulqdq is_fallback_sliced simd_usable m = (Continue A, m)"
    for p m
    by (simp add: CRC_PCLMUL_eq)
  have unchanged: "dispatch funcs (scalar_fallback is_fallback_sliced chunk step) A p 0 cst
      have_pclmulqdq is_fallback_sliced simd_usable m = (A, m)" for p m
    unfolding dispatch_def falls_through by (simp add: scalar_fallback_empty)
  show ?thesis
    by (simp only: unchanged falls_through fst_conv)
qed

text \<open>
  Claim C8. Every length an assembly function is called with by dispatch is at least 16:
  both thresholds, 16 and 64, are at least 16, and the call stands behind the threshold
  test.
\<close>

theorem kernel_len_ge_16:
  "(16 :: size_t) \<le> (if is_fallback_sliced then 64 else 16) \<and>
   (\<forall>l \<in> set (kernel_lens (new_events m (snd (dispatch funcs fallback crc p len cst
      have_pclmulqdq is_fallback_sliced simd_usable m)))). 16 \<le> l) \<and>
   (\<forall>l \<in> set (kernel_lens (new_events m (snd (CRC_PCLMUL funcs crc p len cst
      have_pclmulqdq is_fallback_sliced simd_usable m)))). 16 \<le> l)"
proof (cases "(if is_fallback_sliced then 64 else 16) \<le> len \<and> have_pclmulqdq \<and> simd_usable")
  case True
  then have len: "16 \<le> len"
    by (blast intro: threshold_ge_16)
  have "kernel_lens (new_events m (snd (dispatch funcs fallback crc p len cst
      have_pclmulqdq is_fallback_sliced simd_usable m))) = [len]"
    unfolding new_events_dispatch if_P [OF True] by simp
  moreover have "kernel_lens (new_events m (snd (CRC_PCLMUL funcs crc p len cst
      have_pclmulqdq is_fallback_sliced simd_usable m))) = [len]"
    unfolding CRC_PCLMUL_eq if_P [OF True] by (simp add: new_events_def)
  ultimately show ?thesis
    using len by simp
next
  case False
  have "kernel_lens (new_events m (snd (dispatch funcs fallback crc p len cst
      have_pclmulqdq is_fallback_sliced simd_usable m))) = []"
    unfolding new_events_dispatch if_not_P [OF False] by simp
  moreover have "kernel_lens (new_events m (snd (CRC_PCLMUL funcs crc p len cst
      have_pclmulqdq is_fallback_sliced simd_usable m))) = []"
    unfolding CRC_PCLMUL_eq if_not_P [OF False] by (simp add: new_events_def)
  ultimately show ?thesis
    by simp
qed

theorem kernel_len_ge_16_witness:
  "kernel_lens (new_events DEFINE_STATIC_CALL (snd (dispatch (\<lambda>f crc p len k. crc)
      (\<lambda>crc p len. crc) (0 :: 32 word) (replicate 64 0) 64
      \<lparr>fold_across_128_bits_consts = ()\<rparr> True True True DEFINE_STATIC_CALL))) = [64] \<and>
   (16 :: size_t) \<le> 64"
  using kernel_len_ge_16
    [where funcs = "\<lambda>f crc p len k. crc" and fallback = "\<lambda>crc p len. crc"
       and crc = "0 :: 32 word" and p = "replicate 64 0" and len = 64
       and cst = "\<lparr>fold_across_128_bits_consts = ()\<rparr>"
       and have_pclmulqdq = True and is_fallback_sliced = True and simd_usable = True
       and m = DEFINE_STATIC_CALL]
  by (simp add: new_events_dispatch)

section \<open>The static call over the lifetime of the module\<close>

text \<open>
  Claim C5, as stated, at a CPU with none of the features: initialisation from the
  load-time state does not write the static call once; it does not write it at all.
\<close>

theorem INIT_CRC_PCLMUL_no_write:
  "slot_writes (trace (INIT_CRC_PCLMUL
      \<lparr>CONFIG_AS_VPCLMULQDQ = False, X86_FEATURE_VPCLMULQDQ = False,
       X86_FEATURE_AVX2 = False, XFEATURE_MASK_YMM = False,
       X86_FEATURE_AVX512BW = False, X86_FEATURE_AVX512VL = False,
       XFEATURE_MASK_AVX512 = False, X86_FEATURE_PREFER_YMM = False\<rparr>
      DEFINE_STATIC_CALL)) \<noteq> 1"
  by (simp add: INIT_CRC_PCLMUL_def DEFINE_STATIC_CALL_def)

text \<open>
  Claim C5, amended. At load time the static call holds the baseline function and has
  not been written. Over the lifetime of the module (the load, the one run of the
  initialisation, then any number of dispatches) the static call is written at most
  once: exactly once when the assembler's and the CPU's carry-less multiply, the base
  wide vector extension and its OS support are all there, and not at all otherwise.
  After the initialisation, and after every dispatch that follows, it holds what the
  initialisation left, which is the variant the decision table selects. Dispatch only
  reads it: the static call is the same after a dispatch as before, and a dispatch adds
  no write to the trace.
\<close>

theorem static_call_written_at_most_once:
  "pclmul DEFINE_STATIC_CALL = pclmul_sse \<and>
   slot_writes (trace DEFINE_STATIC_CALL) = 0 \<and>
   slot_writes (trace (lifetime funcs fallback cst have_pclmulqdq is_fallback_sliced c calls)) =
     (if CONFIG_AS_VPCLMULQDQ c \<and> X86_FEATURE_VPCLMULQDQ c \<and> X86_FEATURE_AVX2 c \<and>
         XFEATURE_MASK_YMM c then 1 else 0) \<and>
   slot_writes (trace (lifetime funcs fallback cst have_pclmulqdq is_fallback_sliced c calls))
     \<le> 1 \<and>
   pclmul (lifetime funcs fallback cst have_pclmulqdq is_fallback_sliced c calls) =
     pclmul (INIT_CRC_PCLMUL c DEFINE_STATIC_CALL) \<and>
   variant_of (pclmul (lifetime funcs fallback cst have_pclmulqdq is_fallback_sliced c calls)) =
     probe_spec (feature_set_of c) \<and>
   slot_writes (new_events m (INIT_CRC_PCLMUL c m)) =
     (if CONFIG_AS_VPCLMULQDQ c \<and> X86_FEATURE_VPCLMULQDQ c \<and> X86_FEATURE_AVX2 c \<and>
         XFEATURE_MASK_YMM c then 1 else 0) \<and>
   pclmul (snd (dispatch funcs fallback crc p len cst have_pclmulqdq is_fallback_sliced
      simd_usable m)) = pclmul m \<and>
   slot_writes (new_events m (snd (dispatch funcs fallback crc p len cst have_pclmulqdq
      is_fallback_sliced simd_usable m))) = 0"
proof -
  let ?base = "CONFIG_AS_VPCLMULQDQ c \<and> X86_FEATURE_VPCLMULQDQ c \<and> X86_FEATURE_AVX2 c \<and>
         XFEATURE_MASK_YMM c"
  let ?life = "lifetime funcs fallback cst have_pclmulqdq is_fallback_sliced c calls"
  have before: "pclmul DEFINE_STATIC_CALL = pclmul_sse" "slot_writes (trace DEFINE_STATIC_CALL) = 0"
    by (simp_all add: DEFINE_STATIC_CALL_def)
  have "slot_writes (trace ?life) = slot_writes (trace (INIT_CRC_PCLMUL c DEFINE_STATIC_CALL))"
    unfolding lifetime_def by (simp only: dispatches_read_only)
  also have "\<dots> = (if ?base then 1 else 0)"
    by (simp add: slot_writes_INIT before)
  finally have life_writes: "slot_writes (trace ?life) = (if ?base then 1 else 0)" .
  then have at_most: "slot_writes (trace ?life) \<le> 1"
    by simp
  have kept: "pclmul ?life = pclmul (INIT_CRC_PCLMUL c DEFINE_STATIC_CALL)"
    unfolding lifetime_def by (simp only: dispatches_read_only)
  have chosen: "variant_of (pclmul ?life) = probe_spec (feature_set_of c)"
    unfolding kept
    by (simp add: pclmul_INIT DEFINE_STATIC_CALL_def probe_spec_def feature_set_of_def)
  obtain f where "trace (INIT_CRC_PCLMUL c m) =
      (if ?base then trace m @ [Static_call_update f] else trace m)"
    using trace_INIT by blast
  then have "new_events m (INIT_CRC_PCLMUL c m) = (if ?base then [Static_call_update f] else [])"
    by (simp add: new_events_def)
  then have writes: "slot_writes (new_events m (INIT_CRC_PCLMUL c m)) = (if ?base then 1 else 0)"
    by simp
  have read_only: "pclmul (snd (dispatch funcs fallback crc p len cst have_pclmulqdq
      is_fallback_sliced simd_usable m)) = pclmul m"
    by (rule pclmul_dispatch)
  have no_write: "slot_writes (new_events m (snd (dispatch funcs fallback crc p len cst
      have_pclmulqdq is_fallback_sliced simd_usable m))) = 0"
    by (simp add: new_events_dispatch)
  from before life_writes at_most kept chosen writes read_only no_write show ?thesis
    by (intro conjI)
qed

section \<open>Facts about the mode attribute\<close>

lemma sysfs_match_string_modes:
  "sysfs_match_string amd_x3d_mode_strings buf =
     (if sysfs_streq ''frequency'' buf then 0
      else if sysfs_streq ''cache'' buf then 1 else - EINVAL)"
  by (simp add: sysfs_match_string_def amd_x3d_mode_strings_def)

lemma sysfs_match_string_neg:
  "(sysfs_match_string amd_x3d_mode_strings buf < 0) =
     (\<not> sysfs_streq ''frequency'' buf \<and> \<not> sysfs_streq ''cache'' buf)"
  by (simp add: sysfs_match_string_modes EINVAL_def)

lemma amd_x3d_mode_store_eq:
  "amd_x3d_mode_store dsm data buf count =
     (if sysfs_match_string amd_x3d_mode_strings buf < 0
      then (sysfs_match_string amd_x3d_mode_strings buf, data)
      else case dsm (ahandle data) DSM_REVISION_ID DSM_SET_X3D_MODE
                  (sysfs_match_string amd_x3d_mode_strings buf) of
             None \<Rightarrow> (- EINVAL, data)
           | Some out \<Rightarrow>
               (sint count, data\<lparr>curr_mode := sysfs_match_string amd_x3d_mode_strings buf\<rparr>))"
  by (simp add: amd_x3d_mode_store_def amd_x3d_mode_switch_def Let_def EINVAL_def
      split: option.split)

lemma sint_count: "(count :: size_t) \<le> 0x7FFFFFFFFFFFFFFF \<Longrightarrow> sint count = uint count"
proof -
  assume "count \<le> 0x7FFFFFFFFFFFFFFF"
  then have "uint count \<le> uint (0x7FFFFFFFFFFFFFFF :: size_t)"
    by (simp only: word_le_def)
  then have "uint count < 2 ^ 63"
    by simp
  moreover have "- (2 ^ 63) \<le> uint count"
    by (rule order_trans [of _ 0]) simp_all
  ultimately have "signed_take_bit 63 (uint count) = uint count"
    by (rule signed_take_bit_int_eq_self [rotated])
  then show ?thesis
    by (simp add: sint_uint)
qed

lemma amd_x3d_mode_show_eq:
  "amd_x3d_mode_show data b =
     (if curr_mode data = 0 then (10, ''frequency'' @ ''\<newline>'')
      else if curr_mode data = 1 then (6, ''cache'' @ ''\<newline>'')
      else (- EINVAL, b))"
  by (auto simp: amd_x3d_mode_show_def MODE_INDEX_CACHE_def MODE_INDEX_FREQ_def sysfs_emit_def
      PAGE_SIZE_def amd_x3d_mode_strings_def Let_def)

section \<open>Storing and showing the mode\<close>

text \<open>
  Claim C9. A store of a string that matches neither mode string (the string is none of
  \<^verbatim>\<open>frequency\<close> and \<^verbatim>\<open>cache\<close>, each with or without one trailing newline) returns
  \<^verbatim>\<open>-EINVAL\<close> and leaves the device data as it was. A store of a matching string whose
  firmware call fails returns \<^verbatim>\<open>-EINVAL\<close> too and leaves the data as it was. A store of
  a matching string whose firmware call succeeds returns the count (as the signed
  return type reads it; the count itself up to the largest signed value) and sets the
  current mode to the matched index, changing nothing else. So the current mode changes
  only when the firmware call has succeeded.
\<close>

theorem amd_x3d_mode_store_outcomes:
  "(sysfs_match_string amd_x3d_mode_strings buf < 0 \<longrightarrow>
      fst (amd_x3d_mode_store dsm data buf count) = - EINVAL \<and>
      fst (amd_x3d_mode_store dsm data buf count) < 0 \<and>
      snd (amd_x3d_mode_store dsm data buf count) = data) \<and>
   (0 \<le> sysfs_match_string amd_x3d_mode_strings buf \<and>
    dsm (ahandle data) DSM_REVISION_ID DSM_SET_X3D_MODE
      (sysfs_match_string amd_x3d_mode_strings buf) = None \<longrightarrow>
      fst (amd_x3d_mode_store dsm data buf count) = - EINVAL \<and>
      fst (amd_x3d_mode_store dsm data buf count) < 0 \<and>
      snd (amd_x3d_mode_store dsm data buf count) = data) \<and>
   (0 \<le> sysfs_match_string amd_x3d_mode_strings buf \<and>
    dsm (ahandle data) DSM_REVISION_ID DSM_SET_X3D_MODE
      (sysfs_match_string amd_x3d_mode_strings buf) \<noteq> None \<longrightarrow>
      fst (amd_x3d_mode_store dsm data buf count) = sint count \<and>
      (count \<le> 0x7FFFFFFFFFFFFFFF \<longrightarrow>
         fst (amd_x3d_mode_store dsm data buf count) = uint count) \<and>
      snd (amd_x3d_mode_store dsm data buf count) =
        data\<lparr>curr_mode := sysfs_match_string amd_x3d_mode_strings buf\<rparr>) \<and>
   (curr_mode (snd (amd_x3d_mode_store dsm data buf count)) \<noteq> curr_mode data \<longrightarrow>
      dsm (ahandle data) DSM_REVISION_ID DSM_SET_X3D_MODE
        (sysfs_match_string amd_x3d_mode_strings buf) \<noteq> None) \<and>
   (sysfs_match_string amd_x3d_mode_strings buf < 0) =
     (buf \<notin> {''frequency'', ''frequency'' @ ''\<newline>'', ''cache'', ''cache'' @ ''\<newline>''})"
proof -
  let ?ret = "sysfs_match_string amd_x3d_mode_strings buf"
  let ?out = "dsm (ahandle data) DSM_REVISION_ID DSM_SET_X3D_MODE ?ret"
  let ?res = "amd_x3d_mode_store dsm data buf count"
  have no_match: "?ret < 0 \<longrightarrow> fst ?res = - EINVAL \<and> fst ?res < 0 \<and> snd ?res = data"
    by (simp add: amd_x3d_mode_store_eq) (simp add: sysfs_match_string_modes EINVAL_def)
  have dsm_fails: "0 \<le> ?ret \<and> ?out = None \<longrightarrow>
      fst ?res = - EINVAL \<and> fst ?res < 0 \<and> snd ?res = data"
    by (simp add: amd_x3d_mode_store_eq EINVAL_def)
  have dsm_ok: "0 \<le> ?ret \<and> ?out \<noteq> None \<longrightarrow>
      fst ?res = sint count \<and> (count \<le> 0x7FFFFFFFFFFFFFFF \<longrightarrow> fst ?res = uint count) \<and>
      snd ?res = data\<lparr>curr_mode := ?ret\<rparr>"
    by (auto simp: amd_x3d_mode_store_eq sint_count)
  have only_then: "curr_mode (snd ?res) \<noteq> curr_mode data \<longrightarrow> ?out \<noteq> None"
    by (auto simp: amd_x3d_mode_store_eq split: option.splits)
  have neither: "(?ret < 0) =
     (buf \<notin> {''frequency'', ''frequency'' @ ''\<newline>'', ''cache'', ''cache'' @ ''\<newline>''})"
    by (auto simp: sysfs_match_string_neg sysfs_streq_def)
  from no_match dsm_fails dsm_ok only_then neither show ?thesis
    by blast
qed

theorem amd_x3d_mode_store_outcomes_witness:
  "amd_x3d_mode_store (\<lambda>h r f a. Some ()) \<lparr>ahandle = (), curr_mode = 0\<rparr> ''turbo'' 5 =
     (- 22, \<lparr>ahandle = (), curr_mode = 0\<rparr>) \<and>
   amd_x3d_mode_store (\<lambda>h r f a. None :: unit option) \<lparr>ahandle = (), curr_mode = 0\<rparr>
      ''cache'' 5 = (- 22, \<lparr>ahandle = (), curr_mode = 0\<rparr>) \<and>
   amd_x3d_mode_store (\<lambda>h r f a. Some ()) \<lparr>ahandle = (), curr_mode = 0\<rparr> ''cache'' 5 =
     (5, \<lparr>ahandle = (), curr_mode = 1\<rparr>)"
  using
    amd_x3d_mode_store_outcomes [where buf = "''turbo''" and dsm = "\<lambda>h r f a. Some ()"
      and data = "\<lparr>ahandle = (), curr_mode = 0\<rparr>" and count = 5]
    amd_x3d_mode_store_outcomes [where buf = "''cache''"
      and dsm = "\<lambda>h r f a. None :: unit option"
      and data = "\<lparr>ahandle = (), curr_mode = 0\<rparr>" and count = 5]
    amd_x3d_mode_store_outcomes [where buf = "''cache''" and dsm = "\<lambda>h r f a. Some ()"
      and data = "\<lparr>ahandle = (), curr_mode = 0\<rparr>" and count = 5]
  by (simp add: sysfs_match_string_modes sysfs_streq_def EINVAL_def prod_eq_iff)

text \<open>Storing one of the two mode strings, then showing.\<close>

lemma match_mode_strings:
  "sysfs_match_string amd_x3d_mode_strings ''frequency'' = 0"
  "sysfs_match_string amd_x3d_mode_strings (''frequency'' @ ''\<newline>'') = 0"
  "sysfs_match_string amd_x3d_mode_strings ''cache'' = 1"
  "sysfs_match_string amd_x3d_mode_strings (''cache'' @ ''\<newline>'') = 1"
  by (simp_all add: sysfs_match_string_modes sysfs_streq_def)

lemma store_sets_mode:
  assumes "sysfs_match_string amd_x3d_mode_strings buf = i" and "0 \<le> i"
    and "dsm (ahandle data) DSM_REVISION_ID DSM_SET_X3D_MODE i \<noteq> None"
  shows "snd (amd_x3d_mode_store dsm data buf count) = data\<lparr>curr_mode := i\<rparr>"
  using assms by (auto simp: amd_x3d_mode_store_eq)

lemma show_mode:
  "amd_x3d_mode_show (data\<lparr>curr_mode := 0\<rparr>) b = (10, ''frequency'' @ ''\<newline>'')"
  "amd_x3d_mode_show (data\<lparr>curr_mode := 1\<rparr>) b = (6, ''cache'' @ ''\<newline>'')"
  by (simp_all add: amd_x3d_mode_show_eq)

lemma show_after_store_frequency:
  assumes ok: "dsm (ahandle data) DSM_REVISION_ID DSM_SET_X3D_MODE 0 \<noteq> None"
  shows "amd_x3d_mode_show (snd (amd_x3d_mode_store dsm data ''frequency'' count)) b =
           (10, ''frequency'' @ ''\<newline>'') \<and>
         amd_x3d_mode_show (snd (amd_x3d_mode_store dsm data (''frequency'' @ ''\<newline>'')
           count)) b = (10, ''frequency'' @ ''\<newline>'')"
proof -
  have "snd (amd_x3d_mode_store dsm data ''frequency'' count) = data\<lparr>curr_mode := 0\<rparr>"
    by (rule store_sets_mode) (rule match_mode_strings, simp, rule ok)
  moreover have "snd (amd_x3d_mode_store dsm data (''frequency'' @ ''\<newline>'') count) =
      data\<lparr>curr_mode := 0\<rparr>"
    by (rule store_sets_mode) (rule match_mode_strings, simp, rule ok)
  ultimately show ?thesis
    by (simp only: show_mode)
qed

lemma show_after_store_cache:
  assumes ok: "dsm (ahandle data) DSM_REVISION_ID DSM_SET_X3D_MODE 1 \<noteq> None"
  shows "amd_x3d_mode_show (snd (amd_x3d_mode_store dsm data ''cache'' count)) b =
           (6, ''cache'' @ ''\<newline>'') \<and>
         amd_x3d_mode_show (snd (amd_x3d_mode_store dsm data (''cache'' @ ''\<newline>'')
           count)) b = (6, ''cache'' @ ''\<newline>'')"
proof -
  have "snd (amd_x3d_mode_store dsm data ''cache'' count) = data\<lparr>curr_mode := 1\<rparr>"
    by (rule store_sets_mode) (rule match_mode_strings, simp, rule ok)
  moreover have "snd (amd_x3d_mode_store dsm data (''cache'' @ ''\<newline>'') count) =
      data\<lparr>curr_mode := 1\<rparr>"
    by (rule store_sets_mode) (rule match_mode_strings, simp, rule ok)
  ultimately show ?thesis
    by (simp only: show_mode)
qed

text \<open>
  Claim C10. After a store of \<^verbatim>\<open>frequency\<close> or of \<^verbatim>\<open>cache\<close> whose firmware call
  succeeded (the string as it is, or with the trailing newline a shell adds), show emits
  exactly that mode string followed by a newline and returns its length. Show never
  emits anything else: with the current mode outside the two indices it returns
  \<^verbatim>\<open>-EINVAL\<close> and leaves the buffer alone, and with the current mode at one of the two
  indices it emits an entry of the mode-string table followed by a newline.
\<close>

theorem amd_x3d_mode_show_after_store:
  "(s \<in> set amd_x3d_mode_strings \<and>
    dsm (ahandle data) DSM_REVISION_ID DSM_SET_X3D_MODE
      (sysfs_match_string amd_x3d_mode_strings s) \<noteq> None \<longrightarrow>
      amd_x3d_mode_show (snd (amd_x3d_mode_store dsm data s count)) b =
        (int (length s) + 1, s @ ''\<newline>'') \<and>
      amd_x3d_mode_show (snd (amd_x3d_mode_store dsm data (s @ ''\<newline>'') count)) b =
        (int (length s) + 1, s @ ''\<newline>'')) \<and>
   (curr_mode data < 0 \<or> 1 < curr_mode data \<longrightarrow>
      amd_x3d_mode_show data b = (- EINVAL, b)) \<and>
   (0 \<le> curr_mode data \<and> curr_mode data \<le> 1 \<longrightarrow>
      (\<exists>t \<in> set amd_x3d_mode_strings.
         amd_x3d_mode_show data b = (int (length t) + 1, t @ ''\<newline>'')))"
proof (intro conjI impI)
  assume stored: "s \<in> set amd_x3d_mode_strings \<and>
    dsm (ahandle data) DSM_REVISION_ID DSM_SET_X3D_MODE
      (sysfs_match_string amd_x3d_mode_strings s) \<noteq> None"
  then consider "s = ''frequency''" | "s = ''cache''"
    by (auto simp: amd_x3d_mode_strings_def)
  then have both: "amd_x3d_mode_show (snd (amd_x3d_mode_store dsm data s count)) b =
        (int (length s) + 1, s @ ''\<newline>'') \<and>
      amd_x3d_mode_show (snd (amd_x3d_mode_store dsm data (s @ ''\<newline>'') count)) b =
        (int (length s) + 1, s @ ''\<newline>'')"
  proof cases
    case 1
    with stored have "dsm (ahandle data) DSM_REVISION_ID DSM_SET_X3D_MODE 0 \<noteq> None"
      by (simp only: match_mode_strings) simp
    then have "amd_x3d_mode_show (snd (amd_x3d_mode_store dsm data ''frequency'' count)) b =
           (10, ''frequency'' @ ''\<newline>'') \<and>
         amd_x3d_mode_show (snd (amd_x3d_mode_store dsm data (''frequency'' @ ''\<newline>'')
           count)) b = (10, ''frequency'' @ ''\<newline>'')"
      by (rule show_after_store_frequency)
    then show ?thesis
      unfolding 1 by simp
  next
    case 2
    with stored have "dsm (ahandle data) DSM_REVISION_ID DSM_SET_X3D_MODE 1 \<noteq> None"
      by (simp only: match_mode_strings) simp
    then have "amd_x3d_mode_show (snd (amd_x3d_mode_store dsm data ''cache'' count)) b =
           (6, ''cache'' @ ''\<newline>'') \<and>
         amd_x3d_mode_show (snd (amd_x3d_mode_store dsm data (''cache'' @ ''\<newline>'')
           count)) b = (6, ''cache'' @ ''\<newline>'')"
      by (rule show_after_store_cache)
    then show ?thesis
      unfolding 2 by simp
  qed
  from both show "amd_x3d_mode_show (snd (amd_x3d_mode_store dsm data s count)) b =
        (int (length s) + 1, s @ ''\<newline>'')" ..
  from both show "amd_x3d_mode_show (snd (amd_x3d_mode_store dsm data (s @ ''\<newline>'')
        count)) b = (int (length s) + 1, s @ ''\<newline>'')" ..
next
  assume "curr_mode data < 0 \<or> 1 < curr_mode data"
  then show "amd_x3d_mode_show data b = (- EINVAL, b)"
    by (auto simp: amd_x3d_mode_show_eq)
next
  assume "0 \<le> curr_mode data \<and> curr_mode data \<le> 1"
  then consider "curr_mode data = 0" | "curr_mode data = 1"
    by linarith
  then show "\<exists>t \<in> set amd_x3d_mode_strings.
         amd_x3d_mode_show data b = (int (length t) + 1, t @ ''\<newline>'')"
  proof cases
    case 1
    show ?thesis
    proof (rule bexI [where x = "''frequency''"])
      show "amd_x3d_mode_show data b =
          (int (length ''frequency'') + 1, ''frequency'' @ ''\<newline>'')"
        using 1 by (simp add: amd_x3d_mode_show_eq)
      show "''frequency'' \<in> set amd_x3d_mode_strings"
        by (simp add: amd_x3d_mode_strings_def)
    qed
  next
    case 2
    show ?thesis
    proof (rule bexI [where x = "''cache''"])
      show "amd_x3d_mode_show data b = (int (length ''cache'') + 1, ''cache'' @ ''\<newline>'')"
        using 2 by (simp add: amd_x3d_mode_show_eq)
      show "''cache'' \<in> set amd_x3d_mode_strings"
        by (simp add: amd_x3d_mode_strings_def)
    qed
  qed
qed

theorem amd_x3d_mode_show_after_store_witness:
  "amd_x3d_mode_show (snd (amd_x3d_mode_store (\<lambda>h r f a. Some ())
      \<lparr>ahandle = (), curr_mode = 0\<rparr> ''cache'' 5)) [] = (6, ''cache'' @ ''\<newline>'') \<and>
   amd_x3d_mode_show \<lparr>ahandle = (), curr_mode = 7\<rparr> ''old'' = (- 22, ''old'') \<and>
   amd_x3d_mode_show \<lparr>ahandle = (), curr_mode = 0\<rparr> ''old'' =
     (10, ''frequency'' @ ''\<newline>'')"
proof -
  have stored: "''cache'' \<in> set amd_x3d_mode_strings \<and>
      (\<lambda>h r f a. Some ()) (ahandle \<lparr>ahandle = (), curr_mode = 0\<rparr>) DSM_REVISION_ID
        DSM_SET_X3D_MODE (sysfs_match_string amd_x3d_mode_strings ''cache'') \<noteq> None"
    by (simp add: amd_x3d_mode_strings_def)
  have "amd_x3d_mode_show (snd (amd_x3d_mode_store (\<lambda>h r f a. Some ())
      \<lparr>ahandle = (), curr_mode = 0\<rparr> ''cache'' 5)) [] = (6, ''cache'' @ ''\<newline>'')"
    using stored
      amd_x3d_mode_show_after_store [where s = "''cache''" and dsm = "\<lambda>h r f a. Some ()"
        and data = "\<lparr>ahandle = (), curr_mode = 0\<rparr>" and count = 5 and b = "[]"]
    by simp
  moreover have "amd_x3d_mode_show \<lparr>ahandle = (), curr_mode = 7\<rparr> ''old'' = (- 22, ''old'')"
    using amd_x3d_mode_show_after_store [where data = "\<lparr>ahandle = (), curr_mode = 7\<rparr>"
        and b = "''old''" and s = "''cache''" and dsm = "\<lambda>h r f a. Some ()" and count = 5]
    by (simp add: EINVAL_def)
  moreover have "amd_x3d_mode_show \<lparr>ahandle = (), curr_mode = 0\<rparr> ''old'' =
     (10, ''frequency'' @ ''\<newline>'')"
    by (simp add: amd_x3d_mode_show_eq)
  ultimately show ?thesis
    by (intro conjI)
qed

end
